theory Spec2Isabelle
  imports Main "HOL-Library.Multiset"
begin

section \<open>JavaScript values\<close>

text \<open>
  The chart facade of \<^verbatim>\<open>src/chart/chart.ts\<close> builds a plain JavaScript object and hands
  its JSON text to the rendering engine. Values are modelled as a tree. An object is the
  list of its own enumerable properties in the order they were inserted; a well-formed
  object has distinct keys. \<open>Obj\<close> is an object whose prototype chain ends in
  \<^verbatim>\<open>Object.prototype\<close> and adds no enumerable property and no \<^verbatim>\<open>hasOwnProperty\<close>, as
  an object literal or parsed JSON is; \<open>ObjNoProto\<close> is an object without prototype, as
  \<^verbatim>\<open>Object.create(null)\<close> makes it. Strings are lists of code units. Numbers the facade computes
  are array lengths and indices, so \<open>Num\<close> carries an integer; numeric cells of a row are
  carried through and never computed with.
\<close>

datatype jsval =
    Undefined
  | Null
  | Bool bool
  | Num int
  | Str string
  | Arr "jsval list"
  | Obj "(string \<times> jsval) list"
  | ObjNoProto "(string \<times> jsval) list"

datatype error = TypeError

text \<open>\<^verbatim>\<open>Array.isArray(v)\<close>.\<close>

fun isArray :: "jsval \<Rightarrow> bool" where
  "isArray (Arr xs) = True"
| "isArray v = False"

text \<open>\<^verbatim>\<open>key in obj\<close> and \<^verbatim>\<open>obj[key]\<close> for an own property of an object.\<close>

fun has_key :: "string \<Rightarrow> jsval \<Rightarrow> bool" where
  "has_key key (Obj ps) = (map_of ps key \<noteq> None)"
| "has_key key (ObjNoProto ps) = (map_of ps key \<noteq> None)"
| "has_key key v = False"

fun get_prop :: "string \<Rightarrow> jsval \<Rightarrow> jsval" where
  "get_prop key (Obj ps) = (case map_of ps key of Some v \<Rightarrow> v | None \<Rightarrow> Undefined)"
| "get_prop key (ObjNoProto ps) =
     (case map_of ps key of Some v \<Rightarrow> v | None \<Rightarrow> Undefined)"
| "get_prop key v = Undefined"

text \<open>\<^verbatim>\<open>arr[i]\<close>: reading past the end of an array gives \<^verbatim>\<open>undefined\<close>.\<close>

fun get_index :: "nat \<Rightarrow> jsval \<Rightarrow> jsval" where
  "get_index i (Arr xs) = (if i < length xs then xs ! i else Undefined)"
| "get_index i v = Undefined"

text \<open>\<^verbatim>\<open>delete obj.key\<close>: the property is removed, the others keep their order.\<close>

fun delete_prop :: "string \<Rightarrow> jsval \<Rightarrow> jsval" where
  "delete_prop key (Obj ps) = Obj (filter (\<lambda>p. fst p \<noteq> key) ps)"
| "delete_prop key (ObjNoProto ps) = ObjNoProto (filter (\<lambda>p. fst p \<noteq> key) ps)"
| "delete_prop key v = v"

text \<open>
  \<^verbatim>\<open>obj.key = v\<close>: an existing property keeps its place and takes the new value, a new
  property is added last.
\<close>

fun assign :: "string \<Rightarrow> jsval \<Rightarrow> (string \<times> jsval) list \<Rightarrow> (string \<times> jsval) list" where
  "assign key v [] = [(key, v)]"
| "assign key v (p # ps) = (if fst p = key then (key, v) # ps else p # assign key v ps)"

fun set_prop :: "string \<Rightarrow> jsval \<Rightarrow> jsval \<Rightarrow> jsval" where
  "set_prop key v (Obj ps) = Obj (assign key v ps)"
| "set_prop key v (ObjNoProto ps) = ObjNoProto (assign key v ps)"
| "set_prop key v w = w"

text \<open>\<^verbatim>\<open>delete obj.outer.key\<close>: the object held by \<open>outer\<close> loses the property.\<close>

definition delete_nested :: "string \<Rightarrow> string \<Rightarrow> jsval \<Rightarrow> jsval" where
  "delete_nested outer key obj = set_prop outer (delete_prop key (get_prop outer obj)) obj"

text \<open>
  \<^verbatim>\<open>xs.map((x, index) => f(x, index))\<close>: the callback receives the element and its
  position, counted from \<open>i\<close>.
\<close>

fun array_map_index :: "('a \<Rightarrow> nat \<Rightarrow> 'b) \<Rightarrow> nat \<Rightarrow> 'a list \<Rightarrow> 'b list" where
  "array_map_index f i [] = []"
| "array_map_index f i (x # xs) = f x i # array_map_index f (Suc i) xs"

text \<open>\<^verbatim>\<open>s.substring(1)\<close>: the string without its first code unit; the empty string stays empty.\<close>

definition substring1 :: "string \<Rightarrow> string" where
  "substring1 s = drop 1 s"

section \<open>Data, options and the external collaborators\<close>

text \<open>
  Modelled from the spec: the interfaces \<^verbatim>\<open>PhoenixChartData\<close> and
  \<^verbatim>\<open>PhoenixChartOptions\<close> (\<^verbatim>\<open>src/interfaces\<close>, not among the sources), with the fields
  \<^verbatim>\<open>chart.ts\<close> reads. A column's \<^verbatim>\<open>type\<close> and \<^verbatim>\<open>mapping\<close> are enum members, carried
  as their runtime values. In the options \<open>None\<close> is a property that is absent; for
  \<open>colors\<close> and \<open>properties\<close> it also stands for \<^verbatim>\<open>null\<close> and \<^verbatim>\<open>undefined\<close>, since
  the code only tests them for truthiness. An array is truthy also when it is empty, and
  so is every object.
\<close>

record ColumnDescriptor =
  name :: string
  type :: jsval
  mapping :: jsval

record PhoenixChartData =
  columns :: "ColumnDescriptor list"
  rows :: "jsval list"

record PhoenixChartOptions =
  height :: "int option"
  width :: "int option"
  animate :: "bool option"
  colors :: "string list option"
  properties :: "(string \<times> jsval) list option"

definition DEFAULT_OPTIONS :: PhoenixChartOptions where
  "DEFAULT_OPTIONS =
     \<lparr>height = Some 400, width = Some 500, animate = Some True, colors = None,
      properties = None\<rparr>"

text \<open>
  Modelled from the spec: \<^verbatim>\<open>_isMap\<close> and \<^verbatim>\<open>_getMapDefinition\<close> of
  \<^verbatim>\<open>src/chart/map-utils\<close> and the enum \<^verbatim>\<open>PHOENIX_CHART_TYPE\<close> are not among the sources.
  A chart type is the runtime value of its enum member; the classifier and the lookup of
  the map definition are parameters, and so is the built-in \<^verbatim>\<open>JSON.stringify\<close>.
\<close>

record externals =
  isMap :: "jsval \<Rightarrow> bool"
  getMapDefinition :: "jsval \<Rightarrow> jsval"
  JSON_stringify :: "jsval \<Rightarrow> string"

text \<open>
  An instance of the collaborators for the examples: one map type, a small map
  definition, and any serializer.
\<close>

definition example_externals :: "(jsval \<Rightarrow> string) \<Rightarrow> externals" where
  "example_externals stringify =
     \<lparr>isMap = (\<lambda>ty. ty = Str ''badge_map''),
      getMapDefinition = (\<lambda>ty. Obj [(''map'', Obj [(''name'', Str ''world'')])]),
      JSON_stringify = stringify\<rparr>"

section \<open>The palette and the configuration document\<close>

definition createPalette :: "string list \<Rightarrow> jsval" where
  "createPalette cs =
     Obj [(''colorRanges'',
            Arr [Obj [(''name'', Str ''CustomPalette''),
                      (''values'', Arr (map (\<lambda>color. Str (substring1 color)) cs))]]),
          (''colorRules'',
            Arr [Obj [(''min'', Num 1),
                      (''max'', Num (int (length cs))),
                      (''values'',
                         Arr (array_map_index (\<lambda>color index. Arr [Num 0, Num (int index)])
                                0 cs))]])]"

text \<open>\<^verbatim>\<open>options.properties || {}\<close>.\<close>

definition overrides_of :: "PhoenixChartOptions \<Rightarrow> jsval" where
  "overrides_of options = (case properties options of Some ps \<Rightarrow> Obj ps | None \<Rightarrow> Obj [])"

text \<open>The object literal of \<^verbatim>\<open>_toPhoenixConfig\<close>, before anything is deleted from it.\<close>

definition config_literal ::
  "externals \<Rightarrow> jsval \<Rightarrow> PhoenixChartData \<Rightarrow> PhoenixChartOptions \<Rightarrow> jsval" where
  "config_literal ext ty data options =
     Obj [(''datasources'',
            Obj [(''default'',
              Obj [(''type'', Str ''ordered-column-list''),
                   (''data'',
                     Obj [(''datasource'', Str ''default''),
                          (''metadata'',
                             Arr (map (\<lambda>col. Obj [(''type'', type col)]) (columns data))),
                          (''mappings'', Arr (map mapping (columns data))),
                          (''columns'', Arr (map (\<lambda>col. Str (name col)) (columns data))),
                          (''rows'', Arr (rows data)),
                          (''numRows'', Num (int (length (rows data)))),
                          (''numColumns'', Num (int (length (columns data))))])])]),
          (''components'',
            Obj [(''graph'',
                   if \<not> isMap ext ty
                   then Obj [(''type'', Str ''graph''),
                             (''badgetype'', ty),
                             (''datasource'', Str ''default''),
                             (''columnFormats'', Obj []),
                             (''overrides'', overrides_of options)]
                   else Null),
                 (''map'',
                   if isMap ext ty
                   then Obj [(''type'', Str ''map''),
                             (''badgetype'', ty),
                             (''mapdef'', Str ''map''),
                             (''datasource'', Str ''default''),
                             (''columnFormats'', Obj []),
                             (''overrides'', overrides_of options)]
                   else Null)]),
          (''maps'', if isMap ext ty then getMapDefinition ext ty else Null),
          (''conditionalFormats'', Arr []),
          (''locale'', Str ''en-US''),
          (''version'', Str ''6'')]"

definition toPhoenixConfig ::
  "externals \<Rightarrow> jsval \<Rightarrow> PhoenixChartData \<Rightarrow> PhoenixChartOptions \<Rightarrow> jsval" where
  "toPhoenixConfig ext ty data options =
     (let config = config_literal ext ty data options;
          config =
            (if isMap ext ty then delete_nested ''components'' ''graph'' config
             else delete_nested ''components'' ''map'' (delete_prop ''maps'' config))
      in case colors options of
           Some cs \<Rightarrow> set_prop ''palette'' (createPalette cs) config
         | None \<Rightarrow> config)"

definition createConfigString ::
  "externals \<Rightarrow> jsval \<Rightarrow> PhoenixChartData \<Rightarrow> PhoenixChartOptions \<Rightarrow> string" where
  "createConfigString ext ty data options =
     JSON_stringify ext (toPhoenixConfig ext ty data options)"

section \<open>The row normalizer\<close>

text \<open>
  \<^verbatim>\<open>for (const key in row)\<close> visits the own enumerable string keys of an object in the
  order of the language: first the keys that are array indices (the canonical decimal
  form of an integer from 0 to 2^32 - 2), in ascending numeric order, then all other keys
  in the order they were inserted.
\<close>

definition is_digit :: "char \<Rightarrow> bool" where
  "is_digit c = (48 \<le> (of_char c :: nat) \<and> (of_char c :: nat) \<le> 57)"

definition decimal_value :: "string \<Rightarrow> nat" where
  "decimal_value s = foldl (\<lambda>n c. 10 * n + (of_char c - 48)) 0 s"

fun is_array_index :: "string \<Rightarrow> bool" where
  "is_array_index [] = False"
| "is_array_index (c # cs) =
     (list_all is_digit (c # cs) \<and> (cs = [] \<or> c \<noteq> CHR ''0'') \<and>
      decimal_value (c # cs) < 4294967295)"

definition for_in_order :: "(string \<times> jsval) list \<Rightarrow> (string \<times> jsval) list" where
  "for_in_order ps =
     sort_key (\<lambda>p. decimal_value (fst p)) (filter (\<lambda>p. is_array_index (fst p)) ps) @
     filter (\<lambda>p. \<not> is_array_index (fst p)) ps"

definition for_in_keys :: "(string \<times> jsval) list \<Rightarrow> string list" where
  "for_in_keys ps = map fst (for_in_order ps)"

text \<open>
  What \<^verbatim>\<open>row.hasOwnProperty\<close> finds. An object looks among its own properties first:
  the rows are data, so an own property of that name is not a function. Otherwise an
  object with a prototype inherits the method of \<^verbatim>\<open>Object.prototype\<close>, and an object
  without prototype finds nothing. Arrays and strings inherit the method through their
  own prototypes; the remaining values have no key, so the loop never asks.
\<close>

fun inherits_hasOwnProperty :: "jsval \<Rightarrow> bool" where
  "inherits_hasOwnProperty (Obj ps) = (map_of ps ''hasOwnProperty'' = None)"
| "inherits_hasOwnProperty (ObjNoProto ps) = False"
| "inherits_hasOwnProperty v = True"

text \<open>
  The body of the loop in \<^verbatim>\<open>transformData\<close>, over the keys still to visit. Calling
  \<^verbatim>\<open>row.hasOwnProperty(key)\<close> raises a TypeError when what the row finds under that name
  is not the inherited method; the method answers whether the key is an own property of
  the row. No row inherits an enumerable property, so every key the loop visits is an own
  one.
\<close>

fun own_property_loop :: "jsval \<Rightarrow> string list \<Rightarrow> jsval list \<Rightarrow> error + jsval list" where
  "own_property_loop row [] newRow = Inr newRow"
| "own_property_loop row (key # keys) newRow =
     (if \<not> inherits_hasOwnProperty row then Inl TypeError
      else if has_key key row
      then own_property_loop row keys (newRow @ [get_prop key row])
      else own_property_loop row keys newRow)"

text \<open>
  The callback of \<^verbatim>\<open>rows.map\<close>. An array row has its indices as keys, in ascending order,
  and a string row the indices of its code units; \<^verbatim>\<open>null\<close>, \<^verbatim>\<open>undefined\<close>, numbers and
  booleans have no enumerable key.
\<close>

fun transform_row :: "jsval \<Rightarrow> error + jsval list" where
  "transform_row (Obj ps) = own_property_loop (Obj ps) (for_in_keys ps) []"
| "transform_row (ObjNoProto ps) = own_property_loop (ObjNoProto ps) (for_in_keys ps) []"
| "transform_row (Arr xs) = Inr xs"
| "transform_row (Str s) = Inr (map (\<lambda>c. Str [c]) s)"
| "transform_row v = Inr []"

fun transformData :: "jsval list \<Rightarrow> error + jsval list" where
  "transformData [] = Inr []"
| "transformData (row # rest) =
     (case transform_row row of
        Inl e \<Rightarrow> Inl e
      | Inr newRow \<Rightarrow>
          (case transformData rest of
             Inl e \<Rightarrow> Inl e
           | Inr newRows \<Rightarrow> Inr (Arr newRow # newRows)))"

text \<open>
  The block that the constructor and \<^verbatim>\<open>update\<close> both run on \<^verbatim>\<open>data.rows\<close>:
  \<^verbatim>\<open>if (!Array.isArray(data.rows[0])) this._data.rows = this.transformData(data.rows)\<close>.
  The rows are an array by their type, so the outer test \<^verbatim>\<open>Array.isArray(data.rows)\<close>
  holds; \<^verbatim>\<open>data.rows[0]\<close> of an empty array is \<^verbatim>\<open>undefined\<close>.
\<close>

definition normalizeRows :: "jsval list \<Rightarrow> error + jsval list" where
  "normalizeRows rs =
     (if \<not> isArray (get_index 0 (Arr rs)) then transformData rs else Inr rs)"

text \<open>
  What the specification calls a row's own enumerable values, in the order the language visits
  them: the values of an object's properties in \<open>for_in_order\<close>, the elements of an
  array, the code units of a string, and nothing for any other value.
\<close>

fun enumerable_values :: "jsval \<Rightarrow> jsval list" where
  "enumerable_values (Obj ps) = map snd (for_in_order ps)"
| "enumerable_values (ObjNoProto ps) = map snd (for_in_order ps)"
| "enumerable_values (Arr xs) = xs"
| "enumerable_values (Str s) = map (\<lambda>c. Str [c]) s"
| "enumerable_values v = []"

section \<open>The chart session\<close>

text \<open>
  The engine handle \<^verbatim>\<open>_instance\<close> is opaque: it is modelled by the calls made on it, in
  order, the first being the call that created it. The canvas it returns is not modelled.
\<close>

datatype engine_call =
    CreatePhoenixWithChartState string string "int option" "int option" bool int
  | SetUsePhoenixHover bool
  | GetCanvas
  | Draw bool bool
  | Resize int int
  | UpdateChartJson string bool

record PhoenixChart =
  this_type :: jsval
  this_data :: PhoenixChartData
  this_options :: PhoenixChartOptions
  this_instance :: "engine_call list"
  this_packet :: string

text \<open>\<^verbatim>\<open>{ ...DEFAULT_OPTIONS, ...options }\<close>; spreading \<^verbatim>\<open>undefined\<close> adds nothing.\<close>

definition spread_options ::
  "PhoenixChartOptions \<Rightarrow> PhoenixChartOptions option \<Rightarrow> PhoenixChartOptions" where
  "spread_options d given =
     (case given of
        None \<Rightarrow> d
      | Some options \<Rightarrow>
          \<lparr>height = (case height options of Some v \<Rightarrow> Some v | None \<Rightarrow> height d),
           width = (case width options of Some v \<Rightarrow> Some v | None \<Rightarrow> width d),
           animate = (case animate options of Some v \<Rightarrow> Some v | None \<Rightarrow> animate d),
           colors = (case colors options of Some v \<Rightarrow> Some v | None \<Rightarrow> colors d),
           properties =
             (case properties options of Some v \<Rightarrow> Some v | None \<Rightarrow> properties d)\<rparr>)"

text \<open>\<^verbatim>\<open>!this._options.animate\<close>.\<close>

definition not_animate :: "PhoenixChartOptions \<Rightarrow> bool" where
  "not_animate options = (case animate options of Some b \<Rightarrow> \<not> b | None \<Rightarrow> True)"

text \<open>
  The constructor. The rows are normalized in the caller's data object, which the session
  keeps; a TypeError of the normalizer leaves no session.
\<close>

definition constructor ::
  "externals \<Rightarrow> jsval \<Rightarrow> PhoenixChartData \<Rightarrow> PhoenixChartOptions option \<Rightarrow>
   error + PhoenixChart" where
  "constructor ext ty data given =
     (case normalizeRows (rows data) of
        Inl e \<Rightarrow> Inl e
      | Inr rs \<Rightarrow>
          (let data = data\<lparr>rows := rs\<rparr>;
               options = spread_options DEFAULT_OPTIONS given;
               configString = createConfigString ext ty data options
           in Inr \<lparr>this_type = ty, this_data = data, this_options = options,
                   this_instance =
                     [CreatePhoenixWithChartState configString ''{}'' (width options)
                        (height options) True 0,
                      SetUsePhoenixHover True, GetCanvas],
                   this_packet = configString\<rparr>))"

definition render :: "PhoenixChart \<Rightarrow> PhoenixChart" where
  "render s = s\<lparr>this_instance := this_instance s @ [Draw (not_animate (this_options s)) False]\<rparr>"

definition resize :: "PhoenixChart \<Rightarrow> int \<Rightarrow> int \<Rightarrow> PhoenixChart" where
  "resize s w h = s\<lparr>this_instance := this_instance s @ [Resize w h]\<rparr>"

text \<open>
  \<^verbatim>\<open>update(data, options?)\<close>. The result is the error raised, if any, and the session
  as the call leaves it. The first statement reads \<^verbatim>\<open>options.colors\<close>: with the
  argument omitted \<^verbatim>\<open>options\<close> is \<^verbatim>\<open>undefined\<close> and the read raises a TypeError. A
  TypeError of the normalizer is raised after the options and \<^verbatim>\<open>_data\<close> were assigned.
\<close>

definition update ::
  "externals \<Rightarrow> PhoenixChart \<Rightarrow> PhoenixChartData \<Rightarrow> PhoenixChartOptions option \<Rightarrow>
   error option \<times> PhoenixChart" where
  "update ext s data given =
     (case given of
        None \<Rightarrow> (Some TypeError, s)
      | Some options \<Rightarrow>
          (let s = (case colors options of
                      Some cs \<Rightarrow> s\<lparr>this_options := (this_options s)\<lparr>colors := Some cs\<rparr>\<rparr>
                    | None \<Rightarrow> s);
               s = (case properties options of
                      Some ps \<Rightarrow> s\<lparr>this_options := (this_options s)\<lparr>properties := Some ps\<rparr>\<rparr>
                    | None \<Rightarrow> s);
               s = s\<lparr>this_data := data\<rparr>
           in case normalizeRows (rows data) of
                Inl e \<Rightarrow> (Some e, s)
              | Inr rs \<Rightarrow>
                  (let data = data\<lparr>rows := rs\<rparr>;
                       s = s\<lparr>this_data := data\<rparr>;
                       configString =
                         createConfigString ext (this_type s) data (this_options s);
                       s = s\<lparr>this_packet := configString\<rparr>
                   in (None,
                       s\<lparr>this_instance := this_instance s @
                            [UpdateChartJson configString (not_animate (this_options s))]\<rparr>))))"

definition setChartProperties ::
  "externals \<Rightarrow> PhoenixChart \<Rightarrow> (string \<times> jsval) list \<Rightarrow> error option \<times> PhoenixChart" where
  "setChartProperties ext s ps =
     (let s = s\<lparr>this_options := (this_options s)\<lparr>properties := Some ps\<rparr>\<rparr>
      in update ext s (this_data s) None)"

definition resetColorPalette :: "externals \<Rightarrow> PhoenixChart \<Rightarrow> error option \<times> PhoenixChart" where
  "resetColorPalette ext s =
     (let s = s\<lparr>this_options := (this_options s)\<lparr>colors := None\<rparr>\<rparr>
      in update ext s (this_data s) None)"

definition getPacket :: "PhoenixChart \<Rightarrow> string" where
  "getPacket s = this_packet s"

section \<open>Properties of the palette\<close>

lemma array_map_index_const:
  "array_map_index (\<lambda>x k. g k) i xs = map g [i ..< i + length xs]"
proof (induction xs arbitrary: i)
  case Nil
  show ?case by simp
next
  case (Cons x xs)
  have "i < i + length (x # xs)"
    by simp
  then have "[i ..< i + length (x # xs)] = i # [Suc i ..< i + length (x # xs)]"
    by (rule upt_conv_Cons)
  moreover have "i + length (x # xs) = Suc i + length xs"
    by simp
  ultimately have "[i ..< i + length (x # xs)] = i # [Suc i ..< Suc i + length xs]"
    by (simp only:)
  then show ?case
    using Cons.IH [of "Suc i"] by (simp only: array_map_index.simps list.map)
qed

lemma length_array_map_index: "length (array_map_index f i xs) = length xs"
  by (induction xs arbitrary: i) simp_all

text \<open>
  C6: for every ordered colour list, the values of the first colour range of the palette
  have the length and the order of the list, and the entry at each position is the colour
  at that position without its first character.
\<close>

theorem palette_range_values:
  "get_prop ''values'' (get_index 0 (get_prop ''colorRanges'' (createPalette cs))) =
     Arr (map (\<lambda>c. Str (tl c)) cs) \<and>
   length (map (\<lambda>c. Str (tl c)) cs) = length cs \<and>
   (\<forall>i<length cs.
      get_index i
        (get_prop ''values'' (get_index 0 (get_prop ''colorRanges'' (createPalette cs)))) =
      Str (tl (cs ! i)))"
  by (simp add: createPalette_def substring1_def drop_Suc)

theorem palette_range_values_witness:
  "get_prop ''values''
     (get_index 0
        (get_prop ''colorRanges'' (createPalette [''#ff0000'', ''#00ff00'', ''blue'', '''']))) =
   Arr [Str ''ff0000'', Str ''00ff00'', Str ''lue'', Str '''']"
  using palette_range_values [of "[''#ff0000'', ''#00ff00'', ''blue'', '''']"] by simp

text \<open>
  C7: for every ordered colour list, the first colour rule of the palette is the rule with
  \<open>min\<close> 1, \<open>max\<close> the number of colours, and as values the pairs \<open>[0, index]\<close> for the
  indices from 0 to the number of colours minus one, in order.
\<close>

theorem palette_rule:
  "get_index 0 (get_prop ''colorRules'' (createPalette cs)) =
     Obj [(''min'', Num 1), (''max'', Num (int (length cs))),
          (''values'', Arr (map (\<lambda>i. Arr [Num 0, Num (int i)]) [0 ..< length cs]))]"
  using array_map_index_const [of "\<lambda>k. Arr [Num 0, Num (int k)]" 0 cs]
  by (simp add: createPalette_def)

theorem palette_rule_witness:
  "get_index 0 (get_prop ''colorRules'' (createPalette [''#ff0000'', ''#00ff00'', ''#0000ff''])) =
     Obj [(''min'', Num 1), (''max'', Num 3),
          (''values'', Arr [Arr [Num 0, Num 0], Arr [Num 0, Num 1], Arr [Num 0, Num 2]])]"
  using palette_rule [of "[''#ff0000'', ''#00ff00'', ''#0000ff'']"] by (simp add: upt_rec)

section \<open>Properties of the configuration document\<close>

text \<open>
  C1: for every chart type, data and options, the components of the document hold exactly
  one of \<open>graph\<close> and \<open>map\<close>, the one the classifier selects, with the chart type as its
  badge type, and the document has the key \<open>maps\<close> exactly for a map type, holding the
  map definition of the type.
\<close>

theorem config_one_component:
  "has_key ''graph'' (get_prop ''components'' (toPhoenixConfig ext ty data options)) =
     (\<not> isMap ext ty) \<and>
   has_key ''map'' (get_prop ''components'' (toPhoenixConfig ext ty data options)) =
     isMap ext ty \<and>
   has_key ''maps'' (toPhoenixConfig ext ty data options) = isMap ext ty \<and>
   get_prop ''type''
     (get_prop (if isMap ext ty then ''map'' else ''graph'')
        (get_prop ''components'' (toPhoenixConfig ext ty data options))) =
     Str (if isMap ext ty then ''map'' else ''graph'') \<and>
   get_prop ''badgetype''
     (get_prop (if isMap ext ty then ''map'' else ''graph'')
        (get_prop ''components'' (toPhoenixConfig ext ty data options))) = ty \<and>
   (isMap ext ty \<longrightarrow>
      get_prop ''maps'' (toPhoenixConfig ext ty data options) = getMapDefinition ext ty)"
  by (cases "colors options")
     (simp_all add: toPhoenixConfig_def config_literal_def delete_nested_def Let_def)

theorem config_one_component_witness:
  "has_key ''map''
     (get_prop ''components''
        (toPhoenixConfig (example_externals (\<lambda>doc. ''{}'')) (Str ''badge_map'')
           \<lparr>columns = [], rows = []\<rparr> DEFAULT_OPTIONS)) \<and>
   \<not> has_key ''graph''
     (get_prop ''components''
        (toPhoenixConfig (example_externals (\<lambda>doc. ''{}'')) (Str ''badge_map'')
           \<lparr>columns = [], rows = []\<rparr> DEFAULT_OPTIONS)) \<and>
   get_prop ''maps''
     (toPhoenixConfig (example_externals (\<lambda>doc. ''{}'')) (Str ''badge_map'')
        \<lparr>columns = [], rows = []\<rparr> DEFAULT_OPTIONS) =
     Obj [(''map'', Obj [(''name'', Str ''world'')])] \<and>
   has_key ''graph''
     (get_prop ''components''
        (toPhoenixConfig (example_externals (\<lambda>doc. ''{}'')) (Str ''badge_vert_bar'')
           \<lparr>columns = [], rows = []\<rparr> DEFAULT_OPTIONS)) \<and>
   \<not> has_key ''map''
     (get_prop ''components''
        (toPhoenixConfig (example_externals (\<lambda>doc. ''{}'')) (Str ''badge_vert_bar'')
           \<lparr>columns = [], rows = []\<rparr> DEFAULT_OPTIONS)) \<and>
   \<not> has_key ''maps''
     (toPhoenixConfig (example_externals (\<lambda>doc. ''{}'')) (Str ''badge_vert_bar'')
        \<lparr>columns = [], rows = []\<rparr> DEFAULT_OPTIONS)"
  using
    config_one_component [of "example_externals (\<lambda>doc. ''{}'')" "Str ''badge_map''"
      "\<lparr>columns = [], rows = []\<rparr>" DEFAULT_OPTIONS]
    config_one_component [of "example_externals (\<lambda>doc. ''{}'')" "Str ''badge_vert_bar''"
      "\<lparr>columns = [], rows = []\<rparr>" DEFAULT_OPTIONS]
  by (simp add: example_externals_def)

text \<open>
  C2, as the code has it: the document has the key \<open>palette\<close> exactly when
  \<^verbatim>\<open>options.colors\<close> is truthy, that is, when it is an array, empty or not; the palette is
  then the one built from the colours. With \<^verbatim>\<open>colors\<close> null the document has no such
  key at all.
\<close>

theorem config_palette_iff_colors:
  "has_key ''palette'' (toPhoenixConfig ext ty data options) = (colors options \<noteq> None) \<and>
   (colors options = None \<longrightarrow>
      get_prop ''palette'' (toPhoenixConfig ext ty data options) = Undefined) \<and>
   (\<forall>cs. colors options = Some cs \<longrightarrow>
      get_prop ''palette'' (toPhoenixConfig ext ty data options) = createPalette cs)"
  by (cases "colors options")
     (simp_all add: toPhoenixConfig_def config_literal_def delete_nested_def Let_def)

theorem config_palette_iff_colors_witness:
  "\<not> has_key ''palette''
     (toPhoenixConfig (example_externals (\<lambda>doc. ''{}'')) (Str ''badge_vert_bar'')
        \<lparr>columns = [], rows = []\<rparr> DEFAULT_OPTIONS) \<and>
   get_prop ''palette''
     (toPhoenixConfig (example_externals (\<lambda>doc. ''{}'')) (Str ''badge_vert_bar'')
        \<lparr>columns = [], rows = []\<rparr> (DEFAULT_OPTIONS\<lparr>colors := Some [''#ff0000'']\<rparr>)) =
     createPalette [''#ff0000'']"
  using
    config_palette_iff_colors [of "example_externals (\<lambda>doc. ''{}'')" "Str ''badge_vert_bar''"
      "\<lparr>columns = [], rows = []\<rparr>" DEFAULT_OPTIONS]
    config_palette_iff_colors [of "example_externals (\<lambda>doc. ''{}'')" "Str ''badge_vert_bar''"
      "\<lparr>columns = [], rows = []\<rparr>" "DEFAULT_OPTIONS\<lparr>colors := Some [''#ff0000'']\<rparr>"]
  by (simp add: DEFAULT_OPTIONS_def)

text \<open>
  The empty colour list is truthy: the document built from it has a palette, with no
  values and the rule from 1 to 0.
\<close>

theorem config_palette_empty_colors_counterexample:
  "has_key ''palette''
     (toPhoenixConfig (example_externals (\<lambda>doc. ''{}'')) (Str ''badge_vert_bar'')
        \<lparr>columns = [], rows = []\<rparr> (DEFAULT_OPTIONS\<lparr>colors := Some []\<rparr>)) \<and>
   get_prop ''palette''
     (toPhoenixConfig (example_externals (\<lambda>doc. ''{}'')) (Str ''badge_vert_bar'')
        \<lparr>columns = [], rows = []\<rparr> (DEFAULT_OPTIONS\<lparr>colors := Some []\<rparr>)) =
     Obj [(''colorRanges'', Arr [Obj [(''name'', Str ''CustomPalette''), (''values'', Arr [])]]),
          (''colorRules'',
             Arr [Obj [(''min'', Num 1), (''max'', Num 0), (''values'', Arr [])]])]"
  by (simp add: toPhoenixConfig_def config_literal_def delete_nested_def Let_def
        example_externals_def DEFAULT_OPTIONS_def createPalette_def)

section \<open>Properties of the row normalizer\<close>

lemma own_property_loop_plain:
  assumes "inherits_hasOwnProperty row"
  shows "own_property_loop row keys newRow =
           Inr (newRow @ map (\<lambda>key. get_prop key row) (filter (\<lambda>key. has_key key row) keys))"
  using assms by (induction keys arbitrary: newRow) simp_all

lemma own_property_loop_raises:
  assumes "\<not> inherits_hasOwnProperty row" and "keys \<noteq> []"
  shows "own_property_loop row keys newRow = Inl TypeError"
  using assms by (cases keys) simp_all

lemma set_for_in_order: "set (for_in_order ps) = set ps"
  by (auto simp: for_in_order_def)

lemma mset_for_in_order: "mset (for_in_order ps) = mset ps"
  by (simp add: for_in_order_def)

lemma has_key_for_in_keys:
  assumes "key \<in> set (for_in_keys ps)"
  shows "has_key key (Obj ps)"
proof -
  from assms obtain v where "(key, v) \<in> set ps"
    by (auto simp: for_in_keys_def set_for_in_order)
  then have "map_of ps key \<noteq> None"
    by (metis map_of_eq_None_iff fst_conv image_eqI)
  then show ?thesis by simp
qed

lemma transform_row_object:
  assumes "map_of ps ''hasOwnProperty'' = None"
  shows "transform_row (Obj ps) = Inr (map (\<lambda>key. get_prop key (Obj ps)) (for_in_keys ps))"
proof -
  have "\<forall>key\<in>set (for_in_keys ps). has_key key (Obj ps)"
    using has_key_for_in_keys by blast
  then have "filter (\<lambda>key. has_key key (Obj ps)) (for_in_keys ps) = for_in_keys ps"
    by (rule filter_True)
  moreover from assms have "inherits_hasOwnProperty (Obj ps)"
    by simp
  note own_property_loop_plain [OF this, of "for_in_keys ps" "[]"]
  ultimately show ?thesis
    by (simp only: transform_row.simps append_Nil)
qed

lemma transform_row_raises:
  "ps \<noteq> [] \<Longrightarrow> transform_row (ObjNoProto ps) = Inl TypeError"
  "map_of ps ''hasOwnProperty'' \<noteq> None \<Longrightarrow> transform_row (Obj ps) = Inl TypeError"
proof -
  have keys: "for_in_keys qs \<noteq> []" if "qs \<noteq> []" for qs :: "(string \<times> jsval) list"
  proof -
    from that have "set (for_in_order qs) \<noteq> {}"
      by (simp add: set_for_in_order)
    then show ?thesis
      by (simp add: for_in_keys_def)
  qed
  show "transform_row (ObjNoProto ps) = Inl TypeError" if "ps \<noteq> []"
    using keys [OF that] by (simp add: own_property_loop_raises)
  show "transform_row (Obj ps) = Inl TypeError" if "map_of ps ''hasOwnProperty'' \<noteq> None"
  proof -
    from that have "ps \<noteq> []"
      by auto
    from keys [OF this] that show ?thesis
      by (simp add: own_property_loop_raises)
  qed
qed

lemma get_prop_entries:
  assumes "distinct (map fst ps)" and "set es \<subseteq> set ps"
  shows "map (\<lambda>key. get_prop key (Obj ps)) (map fst es) = map snd es"
  using assms by (induction es) auto

lemma transform_row_values:
  assumes "inherits_hasOwnProperty r"
    and "\<And>ps. r = Obj ps \<Longrightarrow> distinct (map fst ps)"
  shows "transform_row r = Inr (enumerable_values r)"
proof (cases r)
  case (Obj ps)
  from assms(1) Obj have "map_of ps ''hasOwnProperty'' = None"
    by simp
  moreover from assms(2) Obj have "distinct (map fst ps)"
    by simp
  ultimately have "transform_row (Obj ps) =
      Inr (map (\<lambda>key. get_prop key (Obj ps)) (map fst (for_in_order ps)))"
    and "map (\<lambda>key. get_prop key (Obj ps)) (map fst (for_in_order ps)) =
      map snd (for_in_order ps)"
    using transform_row_object [of ps] get_prop_entries [of ps "for_in_order ps"]
    by (simp_all only: for_in_keys_def set_for_in_order subset_refl)
  with Obj show ?thesis
    by (simp only: enumerable_values.simps)
next
  case (ObjNoProto ps)
  with assms(1) show ?thesis
    by simp
qed simp_all

lemma transformData_values:
  assumes "\<forall>r\<in>set rs. inherits_hasOwnProperty r"
    and "\<forall>ps. Obj ps \<in> set rs \<longrightarrow> distinct (map fst ps)"
  shows "transformData rs = Inr (map (\<lambda>r. Arr (enumerable_values r)) rs)"
  using assms by (induction rs) (simp_all add: transform_row_values)

lemma for_in_order_no_index:
  assumes "\<not> list_ex is_array_index (map fst ps)"
  shows "for_in_order ps = ps"
proof -
  from assms have all: "\<forall>p\<in>set ps. \<not> is_array_index (fst p)"
    by (simp add: list_ex_iff)
  then have "filter (\<lambda>p. is_array_index (fst p)) ps = []"
    by (simp add: filter_empty_conv)
  moreover from all have "filter (\<lambda>p. \<not> is_array_index (fst p)) ps = ps"
    by (simp add: filter_id_conv)
  ultimately show ?thesis
    by (simp add: for_in_order_def)
qed

lemma values_by_column:
  assumes "distinct (map fst ps)" and "for_in_keys ps = map name cs"
  shows "enumerable_values (Obj ps) = map (\<lambda>c. get_prop (name c) (Obj ps)) cs"
proof -
  have "map snd (for_in_order ps) =
      map (\<lambda>key. get_prop key (Obj ps)) (map fst (for_in_order ps))"
    using get_prop_entries [OF assms(1), of "for_in_order ps"]
    by (simp only: set_for_in_order subset_refl)
  also have "\<dots> = map (\<lambda>key. get_prop key (Obj ps)) (map name cs)"
    using assms(2) by (simp only: for_in_keys_def)
  finally show ?thesis
    by (simp add: comp_def)
qed

lemma transformData_arrays:
  "transformData rs = Inr out \<Longrightarrow> list_all isArray out"
  by (induction rs arbitrary: out) (auto split: sum.splits)

lemma normalizeRows_arrays:
  assumes "list_all isArray out"
  shows "normalizeRows out = Inr out"
  using assms by (cases out) (auto simp: normalizeRows_def)

lemma normalizeRows_idem:
  assumes "normalizeRows rs = Inr out"
  shows "normalizeRows out = Inr out"
proof (cases "isArray (get_index 0 (Arr rs))")
  case True
  with assms have "out = rs"
    by (simp add: normalizeRows_def)
  with True show ?thesis
    by (simp add: normalizeRows_def)
next
  case False
  with assms have "transformData rs = Inr out"
    by (simp add: normalizeRows_def)
  then show ?thesis
    by (intro normalizeRows_arrays transformData_arrays)
qed

text \<open>
  C5, as the code has it: when the first row is a keyed mapping and every row finds the
  inherited method under \<^verbatim>\<open>hasOwnProperty\<close> (no row has an own key of that name, no row
  is an object without prototype), every row becomes the array of its own enumerable
  values in the order the \<^verbatim>\<open>for-in\<close> loop visits them: array-index keys first,
  ascending, then the other keys as inserted. For a row with no array-index key that is
  the row's key-insertion order. The declared columns play no part. The keys of an object
  are distinct.
\<close>

theorem normalize_rows_own_values:
  assumes "rs = Obj ps0 # rest"
    and "\<forall>r\<in>set rs. inherits_hasOwnProperty r"
    and "\<forall>ps. Obj ps \<in> set rs \<longrightarrow> distinct (map fst ps)"
  shows "normalizeRows rs = Inr (map (\<lambda>r. Arr (enumerable_values r)) rs) \<and>
         (\<forall>ps. Obj ps \<in> set rs \<and> \<not> list_ex is_array_index (map fst ps) \<longrightarrow>
                enumerable_values (Obj ps) = map snd ps)"
proof -
  from assms(1) have "normalizeRows rs = transformData rs"
    by (simp add: normalizeRows_def)
  with assms(2,3) show ?thesis
    by (simp add: transformData_values for_in_order_no_index)
qed

theorem normalize_rows_own_values_witness:
  "normalizeRows
     [Obj [(''a'', Num 1), (''b'', Num 2)], Obj [(''b'', Num 4), (''a'', Num 3)],
      Obj [(''x'', Num 0), (''10'', Num 1), (''9'', Num 2)]] =
   Inr [Arr [Num 1, Num 2], Arr [Num 4, Num 3], Arr [Num 2, Num 1, Num 0]]"
  using normalize_rows_own_values
    [of "[Obj [(''a'', Num 1), (''b'', Num 2)], Obj [(''b'', Num 4), (''a'', Num 3)],
          Obj [(''x'', Num 0), (''10'', Num 1), (''9'', Num 2)]]"
        "[(''a'', Num 1), (''b'', Num 2)]"
        "[Obj [(''b'', Num 4), (''a'', Num 3)],
          Obj [(''x'', Num 0), (''10'', Num 1), (''9'', Num 2)]]"]
  by (simp add: for_in_order_def is_digit_def decimal_value_def)

text \<open>
  A row whose key \<open>0\<close> was inserted after the key \<open>b\<close>: the loop visits \<open>0\<close> first, so the
  values come out against the order of insertion.
\<close>

theorem normalize_rows_insertion_order_counterexample:
  "normalizeRows [Obj [(''b'', Num 1), (''0'', Num 2)]] = Inr [Arr [Num 2, Num 1]] \<and>
   map snd [(''b'', Num 1), (''0'', Num 2)] \<noteq> [Num 2, Num 1]"
  by (simp add: normalizeRows_def for_in_keys_def for_in_order_def is_digit_def
        decimal_value_def)

text \<open>
  C4, as the code has it: the normalizer never reads the declared columns. For every
  column list and every list of rows that are keyed mappings with a prototype and without
  an own key \<^verbatim>\<open>hasOwnProperty\<close>, every output row is the array of all the own values of its
  row, each once, none dropped and none filled in, in the order the loop visits them; it
  is as long as the row has keys. When the keys of a row, in the order the loop visits
  them, are the declared column names in the declared order, its output row is as long as
  the column list and holds at each position the row's value for the column declared
  there.
\<close>

theorem normalize_rows_keys_as_columns:
  assumes "\<forall>r\<in>set rs. \<exists>ps. r = Obj ps \<and> distinct (map fst ps) \<and>
             map_of ps ''hasOwnProperty'' = None"
  shows "normalizeRows rs = Inr (map (\<lambda>r. Arr (enumerable_values r)) rs) \<and>
         (\<forall>ps. Obj ps \<in> set rs \<longrightarrow>
            mset (enumerable_values (Obj ps)) = mset (map snd ps) \<and>
            length (enumerable_values (Obj ps)) = length ps \<and>
            (for_in_keys ps = map name cs \<longrightarrow>
               enumerable_values (Obj ps) = map (\<lambda>c. get_prop (name c) (Obj ps)) cs \<and>
               length (enumerable_values (Obj ps)) = length cs))"
proof -
  have "normalizeRows rs = transformData rs"
  proof (cases rs)
    case Nil
    then show ?thesis by (simp add: normalizeRows_def)
  next
    case (Cons r rest)
    with assms obtain ps where "r = Obj ps"
      by auto
    with Cons show ?thesis by (simp add: normalizeRows_def)
  qed
  moreover from assms have "\<forall>r\<in>set rs. inherits_hasOwnProperty r"
    and distinct: "\<forall>ps. Obj ps \<in> set rs \<longrightarrow> distinct (map fst ps)"
    by auto
  ultimately have first: "normalizeRows rs = Inr (map (\<lambda>r. Arr (enumerable_values r)) rs)"
    by (simp add: transformData_values)
  have second: "mset (enumerable_values (Obj ps)) = mset (map snd ps) \<and>
      length (enumerable_values (Obj ps)) = length ps \<and>
      (for_in_keys ps = map name cs \<longrightarrow>
         enumerable_values (Obj ps) = map (\<lambda>c. get_prop (name c) (Obj ps)) cs \<and>
         length (enumerable_values (Obj ps)) = length cs)" if "Obj ps \<in> set rs" for ps
  proof -
    from that distinct have d: "distinct (map fst ps)"
      by blast
    have m: "mset (enumerable_values (Obj ps)) = mset (map snd ps)"
      using arg_cong [OF mset_for_in_order [of ps], of "image_mset snd"] by simp
    from m have "size (mset (enumerable_values (Obj ps))) = size (mset (map snd ps))"
      by (simp only:)
    then have l: "length (enumerable_values (Obj ps)) = length ps"
      by simp
    have c: "enumerable_values (Obj ps) = map (\<lambda>c. get_prop (name c) (Obj ps)) cs \<and>
        length (enumerable_values (Obj ps)) = length cs" if k: "for_in_keys ps = map name cs"
    proof -
      note v = values_by_column [OF d k]
      have "length (enumerable_values (Obj ps)) = length cs"
        by (simp only: v length_map)
      with v show ?thesis
        by (rule conjI)
    qed
    from m l c show ?thesis
      by blast
  qed
  from first second show ?thesis
    by blast
qed

theorem normalize_rows_keys_as_columns_witness:
  "normalizeRows
     [Obj [(''a'', Num 1), (''b'', Num 2)], Obj [(''b'', Num 4), (''a'', Num 3), (''c'', Num 5)]] =
     Inr [Arr [Num 1, Num 2], Arr [Num 4, Num 3, Num 5]] \<and>
   enumerable_values (Obj [(''a'', Num 1), (''b'', Num 2)]) =
     map (\<lambda>c. get_prop (name c) (Obj [(''a'', Num 1), (''b'', Num 2)]))
       [\<lparr>name = ''a'', type = Str ''STRING'', mapping = Str ''ITEM''\<rparr>,
        \<lparr>name = ''b'', type = Str ''LONG'', mapping = Str ''VALUE''\<rparr>]"
proof -
  have plain: "\<forall>r\<in>set [Obj [(''a'', Num 1), (''b'', Num 2)],
                         Obj [(''b'', Num 4), (''a'', Num 3), (''c'', Num 5)]].
      \<exists>ps. r = Obj ps \<and> distinct (map fst ps) \<and> map_of ps ''hasOwnProperty'' = None"
    by simp
  have keys: "for_in_keys [(''a'', Num 1), (''b'', Num 2)] =
      map name [\<lparr>name = ''a'', type = Str ''STRING'', mapping = Str ''ITEM''\<rparr>,
                \<lparr>name = ''b'', type = Str ''LONG'', mapping = Str ''VALUE''\<rparr>]"
    by (simp add: for_in_keys_def for_in_order_def is_digit_def)
  note all = normalize_rows_keys_as_columns [OF plain,
      of "[\<lparr>name = ''a'', type = Str ''STRING'', mapping = Str ''ITEM''\<rparr>,
           \<lparr>name = ''b'', type = Str ''LONG'', mapping = Str ''VALUE''\<rparr>]"]
  from all have "normalizeRows
      [Obj [(''a'', Num 1), (''b'', Num 2)],
       Obj [(''b'', Num 4), (''a'', Num 3), (''c'', Num 5)]] =
      Inr [Arr [Num 1, Num 2], Arr [Num 4, Num 3, Num 5]]"
    by (simp add: for_in_order_def is_digit_def)
  moreover from all keys have "enumerable_values (Obj [(''a'', Num 1), (''b'', Num 2)]) =
      map (\<lambda>c. get_prop (name c) (Obj [(''a'', Num 1), (''b'', Num 2)]))
        [\<lparr>name = ''a'', type = Str ''STRING'', mapping = Str ''ITEM''\<rparr>,
         \<lparr>name = ''b'', type = Str ''LONG'', mapping = Str ''VALUE''\<rparr>]"
    by (simp del: enumerable_values.simps)
  ultimately show ?thesis
    by (rule conjI)
qed

text \<open>
  Two declared columns \<open>a\<close> and \<open>b\<close>, one row with the keys \<open>b\<close>, \<open>a\<close> and \<open>c\<close>: the
  output row has three values, in the row's order, with the undeclared \<open>c\<close> kept.
\<close>

theorem normalize_rows_columns_counterexample:
  "normalizeRows
     (rows \<lparr>columns = [\<lparr>name = ''a'', type = Str ''LONG'', mapping = Str ''ITEM''\<rparr>,
                       \<lparr>name = ''b'', type = Str ''LONG'', mapping = Str ''VALUE''\<rparr>],
            rows = [Obj [(''b'', Num 2), (''a'', Num 1), (''c'', Num 3)]]\<rparr>) =
     Inr [Arr [Num 2, Num 1, Num 3]] \<and>
   length [Num 2, Num 1, Num 3] \<noteq>
     length (columns \<lparr>columns = [\<lparr>name = ''a'', type = Str ''LONG'', mapping = Str ''ITEM''\<rparr>,
                                 \<lparr>name = ''b'', type = Str ''LONG'', mapping = Str ''VALUE''\<rparr>],
                      rows = [Obj [(''b'', Num 2), (''a'', Num 1), (''c'', Num 3)]]\<rparr>)"
  by (simp add: normalizeRows_def for_in_keys_def for_in_order_def is_digit_def)

text \<open>
  C8: when the first row is an array, the rows are left as they are, whatever the later
  rows are: by the normalizer, by \<^verbatim>\<open>update\<close> and by the constructor, which keep the data
  unchanged.
\<close>

theorem normalize_rows_first_array:
  assumes "rows data = Arr row # rest"
  shows "normalizeRows (rows data) = Inr (rows data) \<and>
         fst (update ext s data (Some options)) = None \<and>
         this_data (snd (update ext s data (Some options))) = data \<and>
         (\<exists>s'. constructor ext ty data given = Inr s' \<and> this_data s' = data)"
proof -
  from assms have "normalizeRows (rows data) = Inr (rows data)"
    by (simp add: normalizeRows_def)
  then show ?thesis
    by (simp add: update_def constructor_def Let_def split: option.splits)
qed

theorem normalize_rows_first_array_witness:
  "normalizeRows [Arr [Num 1, Num 2], Obj [(''a'', Num 3), (''b'', Num 4)]] =
     Inr [Arr [Num 1, Num 2], Obj [(''a'', Num 3), (''b'', Num 4)]]"
  using normalize_rows_first_array
    [of "\<lparr>columns = [], rows = [Arr [Num 1, Num 2], Obj [(''a'', Num 3), (''b'', Num 4)]]\<rparr>"
        "[Num 1, Num 2]" "[Obj [(''a'', Num 3), (''b'', Num 4)]]"]
  by simp

section \<open>Properties of the chart session\<close>

text \<open>
  C10: \<^verbatim>\<open>update\<close> called without options raises a TypeError at its first statement and
  leaves the whole session as it was: data, packet, options and the calls made on the
  engine. \<^verbatim>\<open>setChartProperties\<close> makes such a call, so it raises too, after it has stored
  the properties: the data, the packet and the engine are as before.
\<close>

theorem update_without_options:
  "update ext s data None = (Some TypeError, s) \<and>
   fst (setChartProperties ext s ps) = Some TypeError \<and>
   this_data (snd (setChartProperties ext s ps)) = this_data s \<and>
   this_packet (snd (setChartProperties ext s ps)) = this_packet s \<and>
   this_instance (snd (setChartProperties ext s ps)) = this_instance s \<and>
   colors (this_options (snd (setChartProperties ext s ps))) = colors (this_options s)"
  by (simp add: update_def setChartProperties_def Let_def)

theorem update_without_options_witness:
  "\<forall>stringify.
     (\<exists>s. constructor (example_externals stringify) (Str ''badge_vert_bar'')
             \<lparr>columns = [], rows = [Arr [Num 1]]\<rparr> (Some (DEFAULT_OPTIONS\<lparr>colors := Some [''#ff0000'']\<rparr>)) =
           Inr s \<and>
          update (example_externals stringify) s \<lparr>columns = [], rows = [Arr [Num 2]]\<rparr> None =
            (Some TypeError, s) \<and>
          rows (this_data s) = [Arr [Num 1]] \<and>
          colors (this_options s) = Some [''#ff0000''])"
proof
  fix stringify
  obtain s where s:
    "constructor (example_externals stringify) (Str ''badge_vert_bar'')
       \<lparr>columns = [], rows = [Arr [Num 1]]\<rparr> (Some (DEFAULT_OPTIONS\<lparr>colors := Some [''#ff0000'']\<rparr>)) =
     Inr s"
    by (simp add: constructor_def normalizeRows_def Let_def)
  then have "rows (this_data s) = [Arr [Num 1]]" and "colors (this_options s) = Some [''#ff0000'']"
    by (auto simp: constructor_def normalizeRows_def spread_options_def DEFAULT_OPTIONS_def Let_def)
  with s
    update_without_options [of "example_externals stringify" s
      "\<lparr>columns = [], rows = [Arr [Num 2]]\<rparr>"]
  show "\<exists>s. constructor (example_externals stringify) (Str ''badge_vert_bar'')
             \<lparr>columns = [], rows = [Arr [Num 1]]\<rparr> (Some (DEFAULT_OPTIONS\<lparr>colors := Some [''#ff0000'']\<rparr>)) =
           Inr s \<and>
          update (example_externals stringify) s \<lparr>columns = [], rows = [Arr [Num 2]]\<rparr> None =
            (Some TypeError, s) \<and>
          rows (this_data s) = [Arr [Num 1]] \<and>
          colors (this_options s) = Some [''#ff0000'']"
    by blast
qed

text \<open>
  C3 fails on the code: \<^verbatim>\<open>resetColorPalette\<close> clears the colours and then calls
  \<^verbatim>\<open>update\<close> without options, which raises. The call ends in a TypeError for every
  session; the packet and the engine are as before, so a palette in the packet stays.
\<close>

theorem resetColorPalette_raises:
  "resetColorPalette ext s =
     (Some TypeError, s\<lparr>this_options := (this_options s)\<lparr>colors := None\<rparr>\<rparr>) \<and>
   this_packet (snd (resetColorPalette ext s)) = this_packet s \<and>
   this_instance (snd (resetColorPalette ext s)) = this_instance s"
  by (simp add: resetColorPalette_def update_def Let_def)

theorem resetColorPalette_raises_witness:
  "\<forall>stringify.
     (\<exists>s. constructor (example_externals stringify) (Str ''badge_map'')
             \<lparr>columns = [], rows = []\<rparr> (Some (DEFAULT_OPTIONS\<lparr>colors := Some [''#ff0000'']\<rparr>)) =
           Inr s \<and>
          fst (resetColorPalette (example_externals stringify) s) = Some TypeError \<and>
          getPacket (snd (resetColorPalette (example_externals stringify) s)) =
            stringify
              (toPhoenixConfig (example_externals stringify) (Str ''badge_map'')
                 \<lparr>columns = [], rows = []\<rparr> (DEFAULT_OPTIONS\<lparr>colors := Some [''#ff0000'']\<rparr>)) \<and>
          has_key ''palette''
            (toPhoenixConfig (example_externals stringify) (Str ''badge_map'')
               \<lparr>columns = [], rows = []\<rparr> (DEFAULT_OPTIONS\<lparr>colors := Some [''#ff0000'']\<rparr>)))"
proof
  fix stringify
  let ?ext = "example_externals stringify"
  let ?options = "DEFAULT_OPTIONS\<lparr>colors := Some [''#ff0000'']\<rparr>"
  let ?doc = "toPhoenixConfig ?ext (Str ''badge_map'') \<lparr>columns = [], rows = []\<rparr> ?options"
  obtain s where s:
    "constructor ?ext (Str ''badge_map'') \<lparr>columns = [], rows = []\<rparr> (Some ?options) = Inr s"
    by (simp add: constructor_def normalizeRows_def Let_def)
  then have "this_packet s = JSON_stringify ?ext ?doc"
    by (auto simp: constructor_def normalizeRows_def spread_options_def DEFAULT_OPTIONS_def
          createConfigString_def Let_def)
  then have packet: "this_packet s = stringify ?doc"
    by (simp add: example_externals_def)
  have palette: "has_key ''palette'' ?doc"
    by (simp add: toPhoenixConfig_def config_literal_def delete_nested_def Let_def
          example_externals_def DEFAULT_OPTIONS_def)
  from resetColorPalette_raises [of ?ext s] packet
  have "fst (resetColorPalette ?ext s) = Some TypeError"
    and "getPacket (snd (resetColorPalette ?ext s)) = stringify ?doc"
    by (simp_all add: getPacket_def)
  with s palette
  show "\<exists>s. constructor ?ext (Str ''badge_map'') \<lparr>columns = [], rows = []\<rparr> (Some ?options) =
           Inr s \<and>
          fst (resetColorPalette ?ext s) = Some TypeError \<and>
          getPacket (snd (resetColorPalette ?ext s)) = stringify ?doc \<and>
          has_key ''palette'' ?doc"
    by blast
qed

lemma update_with_options:
  assumes "normalizeRows (rows data) = Inr rs"
  shows "update ext s data (Some options) =
    (None,
     \<lparr>this_type = this_type s,
      this_data = data\<lparr>rows := rs\<rparr>,
      this_options =
        (this_options s)
          \<lparr>colors := (case colors options of Some cs \<Rightarrow> Some cs
                       | None \<Rightarrow> colors (this_options s)),
           properties := (case properties options of Some ps \<Rightarrow> Some ps
                          | None \<Rightarrow> properties (this_options s))\<rparr>,
      this_instance = this_instance s @
        [UpdateChartJson
           (createConfigString ext (this_type s) (data\<lparr>rows := rs\<rparr>)
              ((this_options s)
                 \<lparr>colors := (case colors options of Some cs \<Rightarrow> Some cs
                              | None \<Rightarrow> colors (this_options s)),
                  properties := (case properties options of Some ps \<Rightarrow> Some ps
                                 | None \<Rightarrow> properties (this_options s))\<rparr>))
           (not_animate (this_options s))],
      this_packet =
        createConfigString ext (this_type s) (data\<lparr>rows := rs\<rparr>)
          ((this_options s)
             \<lparr>colors := (case colors options of Some cs \<Rightarrow> Some cs
                          | None \<Rightarrow> colors (this_options s)),
              properties := (case properties options of Some ps \<Rightarrow> Some ps
                             | None \<Rightarrow> properties (this_options s))\<rparr>)\<rparr>)"
  using assms
  by (cases "colors options"; cases "properties options")
     (simp_all add: update_def Let_def not_animate_def)

lemma update_raises:
  assumes "normalizeRows (rows data) = Inl e"
  shows "fst (update ext s data (Some options)) = Some e"
  using assms by (simp add: update_def Let_def)

lemma transformData_completes:
  assumes "\<forall>r\<in>set rs. inherits_hasOwnProperty r"
  shows "\<exists>out. transformData rs = Inr out"
  using assms
proof (induction rs)
  case Nil
  show ?case by simp
next
  case (Cons r rs)
  then obtain out where out: "transformData rs = Inr out"
    by auto
  from Cons.prems have "inherits_hasOwnProperty r"
    by simp
  then have "\<exists>newRow. transform_row r = Inr newRow"
    by (cases r) (simp_all add: own_property_loop_plain)
  with out show ?case
    by auto
qed

lemma update_completes:
  assumes "\<forall>r\<in>set (rows data). inherits_hasOwnProperty r"
  shows "fst (update ext s data (Some options)) = None"
proof -
  from transformData_completes [OF assms] have "\<exists>out. normalizeRows (rows data) = Inr out"
    by (simp add: normalizeRows_def)
  then obtain out where "normalizeRows (rows data) = Inr out" ..
  from update_with_options [OF this] show ?thesis
    by simp
qed

text \<open>
  C9: when a call of \<^verbatim>\<open>update\<close> with data and options completes, a second call with
  the same options completes with the same packet, data and options, whether it is given
  equal data again or the data object of the first call, whose rows that call normalized
  in place.
\<close>

theorem update_twice_same_packet:
  assumes "update ext s data (Some options) = (None, s1)"
  shows "fst (update ext s1 data (Some options)) = None \<and>
         this_packet (snd (update ext s1 data (Some options))) = this_packet s1 \<and>
         this_data (snd (update ext s1 data (Some options))) = this_data s1 \<and>
         this_options (snd (update ext s1 data (Some options))) = this_options s1 \<and>
         fst (update ext s1 (this_data s1) (Some options)) = None \<and>
         this_packet (snd (update ext s1 (this_data s1) (Some options))) = this_packet s1"
proof (cases "normalizeRows (rows data)")
  case (Inl e)
  from update_raises [OF this, of ext s options] assms show ?thesis
    by simp
next
  case (Inr rs)
  note first = update_with_options [OF Inr, of ext s options]
  with assms have s1: "s1 = snd (update ext s data (Some options))"
    by simp
  have again: "normalizeRows (rows (this_data s1)) = Inr rs"
    using normalizeRows_idem [OF Inr] by (simp add: s1 first)
  show ?thesis
    using update_with_options [OF Inr, of ext s1 options]
      update_with_options [OF again, of ext s1 options]
    by (cases "colors options"; cases "properties options")
       (simp_all add: s1 first)
qed

theorem update_twice_same_packet_witness:
  "\<forall>stringify.
     (\<exists>s s1.
        constructor (example_externals stringify) (Str ''badge_vert_bar'')
          \<lparr>columns = [], rows = []\<rparr> None = Inr s \<and>
        update (example_externals stringify) s
          \<lparr>columns = [], rows = [Obj [(''a'', Num 1), (''b'', Num 2)]]\<rparr>
          (Some (DEFAULT_OPTIONS\<lparr>colors := Some [''#ff0000'']\<rparr>)) = (None, s1) \<and>
        rows (this_data s1) = [Arr [Num 1, Num 2]] \<and>
        this_packet
          (snd (update (example_externals stringify) s1
             \<lparr>columns = [], rows = [Obj [(''a'', Num 1), (''b'', Num 2)]]\<rparr>
             (Some (DEFAULT_OPTIONS\<lparr>colors := Some [''#ff0000'']\<rparr>)))) = this_packet s1 \<and>
        this_packet
          (snd (update (example_externals stringify) s1 (this_data s1)
             (Some (DEFAULT_OPTIONS\<lparr>colors := Some [''#ff0000'']\<rparr>)))) = this_packet s1)"
proof
  fix stringify
  let ?ext = "example_externals stringify"
  let ?data = "\<lparr>columns = [], rows = [Obj [(''a'', Num 1), (''b'', Num 2)]]\<rparr>"
  let ?options = "DEFAULT_OPTIONS\<lparr>colors := Some [''#ff0000'']\<rparr>"
  obtain s where s:
    "constructor ?ext (Str ''badge_vert_bar'') \<lparr>columns = [], rows = []\<rparr> None = Inr s"
    by (simp add: constructor_def normalizeRows_def Let_def)
  have norm: "normalizeRows (rows ?data) = Inr [Arr [Num 1, Num 2]]"
    by (simp add: normalizeRows_def for_in_keys_def for_in_order_def is_digit_def)
  obtain s1 where s1: "update ?ext s ?data (Some ?options) = (None, s1)"
    using update_with_options [OF norm, of ?ext s ?options] by simp
  with update_with_options [OF norm, of ?ext s ?options]
  have "rows (this_data s1) = [Arr [Num 1, Num 2]]"
    by auto
  with s s1 update_twice_same_packet [OF s1]
  show "\<exists>s s1.
        constructor ?ext (Str ''badge_vert_bar'') \<lparr>columns = [], rows = []\<rparr> None = Inr s \<and>
        update ?ext s ?data (Some ?options) = (None, s1) \<and>
        rows (this_data s1) = [Arr [Num 1, Num 2]] \<and>
        this_packet (snd (update ?ext s1 ?data (Some ?options))) = this_packet s1 \<and>
        this_packet (snd (update ?ext s1 (this_data s1) (Some ?options))) = this_packet s1"
    by blast
qed

end
